theory Spec2Isabelle
  imports Complex_Main "HOL-Library.Sublist"
begin

section \<open>Plataforma de Historias: the server of server.js\<close>

text \<open>
  The server keeps five SQLite tables and answers HTTP routes and two Socket.IO events.
  Every handler is modelled as a function from the store (and the hub's rooms) to a
  response and the new store. A handler runs to completion on the event loop, so one call
  of a handler is one step.

  What the source takes from its environment is a parameter here:
  \<^item> \<open>uid()\<close> and \<open>now()\<close>: the fresh identity and the timestamp of a call are arguments;
  \<^item> bcrypt, jsonwebtoken and SQLite's conversion of a text bound to a REAL column: the
    record \<open>codec\<close> holds the library functions.

  A field of a request body has the type of the column it feeds; \<open>None\<close> stands for a
  field that is missing or null. The field \<open>price\<close> is read as any JSON scalar the store
  binds: missing or null, a number, or a string. JavaScript's truthiness is written out:
  a string is falsy when it is missing or empty, a number when it is missing or zero.
\<close>

subsection \<open>JavaScript helpers\<close>

definition truthy_str :: "string option \<Rightarrow> bool" where
  "truthy_str v = (case v of None \<Rightarrow> False | Some s \<Rightarrow> s \<noteq> [])"

text \<open>
  A field that may hold a number or a string: missing or null, a number, a string. (A
  boolean, an array or an object in such a field is not modelled: what better-sqlite3 does
  with them as bound parameters is its own.)
\<close>

datatype js_scalar = JsAbsent | JsNumber rat | JsString string

definition truthy_scalar :: "js_scalar \<Rightarrow> bool" where
  "truthy_scalar v =
     (case v of JsAbsent \<Rightarrow> False | JsNumber n \<Rightarrow> n \<noteq> 0 | JsString s \<Rightarrow> s \<noteq> [])"

text \<open>\<open>v || d\<close> for a string field and a string default.\<close>

definition or_str :: "string option \<Rightarrow> string \<Rightarrow> string" where
  "or_str v d = (case v of None \<Rightarrow> d | Some s \<Rightarrow> if s = [] then d else s)"

text \<open>\<open>v || null\<close>.\<close>

definition or_null_str :: "string option \<Rightarrow> string option" where
  "or_null_str v = (if truthy_str v then v else None)"

definition or_null_scalar :: "js_scalar \<Rightarrow> js_scalar" where
  "or_null_scalar v = (if truthy_scalar v then v else JsAbsent)"

text \<open>\<open>s.includes(pat)\<close>.\<close>

fun str_includes :: "string \<Rightarrow> string \<Rightarrow> bool" where
  "str_includes [] pat = (pat = [])"
| "str_includes (c # cs) pat = (if prefix pat (c # cs) then True else str_includes cs pat)"

text \<open>\<open>s.replace(pat, rep)\<close> with a string pattern: the first occurrence only.\<close>

fun replace_first :: "string \<Rightarrow> string \<Rightarrow> string \<Rightarrow> string" where
  "replace_first pat rep [] = (if pat = [] then rep else [])"
| "replace_first pat rep (c # cs) =
     (if prefix pat (c # cs) then rep @ drop (length pat) (c # cs)
      else c # replace_first pat rep cs)"

subsection \<open>The tables\<close>

record user_row =
  user_id :: string
  user_email :: "string option"
  user_password :: string
  user_name :: "string option"
  user_username :: "string option"
  user_role :: string
  user_createdAt :: nat

text \<open>
  What the column \<open>price REAL\<close> can hold: NULL, a number, or a text. SQLite types values,
  not columns: the affinity REAL turns a text that is a well-formed numeric literal into
  the number and stores any other text as it is. The conversion is SQLite's and is taken
  as a parameter: \<open>aff s\<close> is the number the text \<open>s\<close> spells, or \<open>None\<close>.
\<close>

datatype sql_value = SqlNull | SqlReal rat | SqlText string

definition bind_real :: "(string \<Rightarrow> rat option) \<Rightarrow> js_scalar \<Rightarrow> sql_value" where
  "bind_real aff v =
     (case v of
        JsAbsent \<Rightarrow> SqlNull
      | JsNumber n \<Rightarrow> SqlReal n
      | JsString s \<Rightarrow> (case aff s of Some n \<Rightarrow> SqlReal n | None \<Rightarrow> SqlText s))"

text \<open>Truthiness of the value as a row read back gives it: null, a number or a string.\<close>

definition truthy_sql :: "sql_value \<Rightarrow> bool" where
  "truthy_sql v =
     (case v of SqlNull \<Rightarrow> False | SqlReal n \<Rightarrow> n \<noteq> 0 | SqlText s \<Rightarrow> s \<noteq> [])"

text \<open>The column \<open>tags\<close> holds the JSON text of an array of strings; the model keeps the array.\<close>

record story_row =
  story_id :: string
  story_authorId :: string
  story_title :: string
  story_excerpt :: string
  story_body :: string
  story_tags :: "string list"
  story_type :: string
  story_price :: sql_value
  story_likes :: nat
  story_createdAt :: nat

record favorite_row =
  fav_id :: string
  fav_userId :: string
  fav_storyId :: string
  fav_createdAt :: nat

record message_row =
  msg_id :: string
  msg_conversationId :: string
  msg_senderId :: string
  msg_content :: string
  msg_createdAt :: nat

record announcement_row =
  ann_id :: string
  ann_authorId :: string
  ann_message :: string
  ann_pinned :: nat
  ann_createdAt :: nat

record db =
  users :: "user_row list"
  stories :: "story_row list"
  favorites :: "favorite_row list"
  messages :: "message_row list"
  announcements :: "announcement_row list"

definition empty_db :: db where
  "empty_db = \<lparr>users = [], stories = [], favorites = [], messages = [], announcements = []\<rparr>"

text \<open>
  An INSERT fails when it breaks a constraint of the schema: the primary key of every
  table, and UNIQUE on \<open>users.email\<close> and \<open>users.username\<close> (SQLite lets any number of
  rows hold NULL in a UNIQUE column). better-sqlite3 throws the SqliteError.
\<close>

datatype sqlite_error = SqliteError string

fun message_of :: "sqlite_error \<Rightarrow> string" where
  "message_of (SqliteError m) = m"

definition insert_user :: "user_row \<Rightarrow> user_row list \<Rightarrow> sqlite_error + user_row list" where
  "insert_user r t =
     (if user_id r \<in> set (map user_id t)
        then Inl (SqliteError ''UNIQUE constraint failed: users.id'')
      else if user_email r \<noteq> None \<and> user_email r \<in> set (map user_email t)
        then Inl (SqliteError ''UNIQUE constraint failed: users.email'')
      else if user_username r \<noteq> None \<and> user_username r \<in> set (map user_username t)
        then Inl (SqliteError ''UNIQUE constraint failed: users.username'')
      else Inr (t @ [r]))"

definition insert_story :: "story_row \<Rightarrow> story_row list \<Rightarrow> sqlite_error + story_row list" where
  "insert_story r t =
     (if story_id r \<in> set (map story_id t)
        then Inl (SqliteError ''UNIQUE constraint failed: stories.id'')
      else Inr (t @ [r]))"

definition insert_favorite ::
  "favorite_row \<Rightarrow> favorite_row list \<Rightarrow> sqlite_error + favorite_row list" where
  "insert_favorite r t =
     (if fav_id r \<in> set (map fav_id t)
        then Inl (SqliteError ''UNIQUE constraint failed: favorites.id'')
      else Inr (t @ [r]))"

definition insert_message ::
  "message_row \<Rightarrow> message_row list \<Rightarrow> sqlite_error + message_row list" where
  "insert_message r t =
     (if msg_id r \<in> set (map msg_id t)
        then Inl (SqliteError ''UNIQUE constraint failed: messages.id'')
      else Inr (t @ [r]))"

definition insert_announcement ::
  "announcement_row \<Rightarrow> announcement_row list \<Rightarrow> sqlite_error + announcement_row list" where
  "insert_announcement r t =
     (if ann_id r \<in> set (map ann_id t)
        then Inl (SqliteError ''UNIQUE constraint failed: announcements.id'')
      else Inr (t @ [r]))"

text \<open>\<open>SELECT * FROM stories WHERE id = ?\<close> with \<open>.get\<close>: the first row, or undefined.\<close>

definition story_by_id :: "string \<Rightarrow> db \<Rightarrow> story_row option" where
  "story_by_id i d = find (\<lambda>s. story_id s = i) (stories d)"

definition user_by_id :: "string \<Rightarrow> db \<Rightarrow> user_row option" where
  "user_by_id i d = find (\<lambda>u. user_id u = i) (users d)"

definition user_by_email :: "string \<Rightarrow> db \<Rightarrow> user_row option" where
  "user_by_email e d = find (\<lambda>u. user_email u = Some e) (users d)"

definition favorite_of :: "string \<Rightarrow> string \<Rightarrow> db \<Rightarrow> favorite_row option" where
  "favorite_of u s d = find (\<lambda>f. fav_userId f = u \<and> fav_storyId f = s) (favorites d)"

subsection \<open>Responses\<close>

text \<open>The user object of a response and of \<open>req.user\<close>: the five public columns.\<close>

record pubuser =
  pub_id :: string
  pub_email :: "string option"
  pub_name :: "string option"
  pub_username :: "string option"
  pub_role :: string

record checkout_link =
  link_url :: string
  link_amount :: sql_value
  link_storyId :: string

datatype json =
    JsonError string
  | JsonSession string pubuser
  | JsonUser pubuser
  | JsonStory "story_row option"
  | JsonOk
  | JsonAction string
  | JsonCheckout checkout_link
  | PlainText string

text \<open>
  A handler answers with a status and a body, or an exception leaves it uncaught
  (Express answers 500 for a synchronous handler; an async handler's rejection is
  unhandled).
\<close>

datatype response = Reply nat json | Uncaught sqlite_error

subsection \<open>Password and token helpers\<close>

record token_data =
  sub :: string
  role :: string

text \<open>
  \<open>bcrypt.hash(p, 10)\<close>, \<open>bcrypt.compare(p, h)\<close>, \<open>jwt.sign(payload, JWT_SECRET,
  {expiresIn:'12h'})\<close> and \<open>jwt.verify(token, JWT_SECRET)\<close>, which throws on a token that is
  malformed, wrongly signed or expired (\<open>None\<close>); and \<open>real_affinity\<close>, SQLite's
  conversion of a text bound to a REAL column.
\<close>

record codec =
  bcrypt_hash :: "string \<Rightarrow> string"
  bcrypt_compare :: "string \<Rightarrow> string \<Rightarrow> bool"
  jwt_sign :: "token_data \<Rightarrow> string"
  jwt_verify :: "string \<Rightarrow> token_data option"
  real_affinity :: "string \<Rightarrow> rat option"

definition hashPassword :: "codec \<Rightarrow> string \<Rightarrow> string" where
  "hashPassword c p = bcrypt_hash c p"

definition comparePassword :: "codec \<Rightarrow> string \<Rightarrow> string \<Rightarrow> bool" where
  "comparePassword c p h = bcrypt_compare c p h"

definition signToken :: "codec \<Rightarrow> pubuser \<Rightarrow> string" where
  "signToken c u = jwt_sign c \<lparr>sub = pub_id u, role = pub_role u\<rparr>"

definition verifyToken :: "codec \<Rightarrow> string \<Rightarrow> token_data option" where
  "verifyToken c t = jwt_verify c t"

definition public_of :: "user_row \<Rightarrow> pubuser" where
  "public_of u = \<lparr>pub_id = user_id u, pub_email = user_email u, pub_name = user_name u,
     pub_username = user_username u, pub_role = user_role u\<rparr>"

definition authMiddleware :: "codec \<Rightarrow> string option \<Rightarrow> db \<Rightarrow> response + pubuser" where
  "authMiddleware c auth d =
     (if \<not> truthy_str auth then Inl (Reply 401 (JsonError ''no token''))
      else
        let token = replace_first ''Bearer '' [] (the auth) in
        case verifyToken c token of
          None \<Rightarrow> Inl (Reply 401 (JsonError ''invalid token''))
        | Some data \<Rightarrow>
            (case user_by_id (sub data) d of
               None \<Rightarrow> Inl (Reply 401 (JsonError ''user not found''))
             | Some u \<Rightarrow> Inr (public_of u)))"

text \<open>A route behind \<open>authMiddleware\<close>: the handler runs with \<open>req.user\<close>, or the 401 is the answer.\<close>

definition protected ::
  "codec \<Rightarrow> string option \<Rightarrow> db \<Rightarrow> (pubuser \<Rightarrow> response \<times> db) \<Rightarrow> response \<times> db" where
  "protected c auth d k = (case authMiddleware c auth d of Inl r \<Rightarrow> (r, d) | Inr u \<Rightarrow> k u)"

subsection \<open>Auth routes\<close>

record register_body =
  reg_email :: "string option"
  reg_password :: "string option"
  reg_name :: "string option"
  reg_username :: "string option"

text \<open>
  \<open>POST /api/auth/register\<close>. The INSERT names no role, so the row takes the column's
  default \<open>'user'\<close>. The row holds \<open>name||null\<close> and \<open>username||null\<close>, the response the
  fields as sent. The message of every error the store raises here names \<open>UNIQUE\<close>, so
  the 500 of the \<open>catch\<close> is for failures the model does not have (bcrypt).
\<close>

definition register :: "codec \<Rightarrow> register_body \<Rightarrow> string \<Rightarrow> nat \<Rightarrow> db \<Rightarrow> response \<times> db" where
  "register c b newid createdAt d =
     (if \<not> truthy_str (reg_email b) \<or> \<not> truthy_str (reg_password b)
        then (Reply 400 (JsonError ''missing email or password''), d)
      else
        let hash = hashPassword c (the (reg_password b)) in
        case insert_user
               \<lparr>user_id = newid, user_email = reg_email b, user_password = hash,
                user_name = or_null_str (reg_name b),
                user_username = or_null_str (reg_username b),
                user_role = ''user'', user_createdAt = createdAt\<rparr> (users d) of
          Inl e \<Rightarrow>
            (if message_of e \<noteq> [] \<and> str_includes (message_of e) ''UNIQUE''
               then (Reply 400 (JsonError ''email or username exists''), d)
             else (Reply 500 (JsonError ''server error''), d))
        | Inr us \<Rightarrow>
            (let user = \<lparr>pub_id = newid, pub_email = reg_email b, pub_name = reg_name b,
                         pub_username = reg_username b, pub_role = ''user''\<rparr>
             in (Reply 200 (JsonSession (signToken c user) user), d\<lparr>users := us\<rparr>)))"

record login_body =
  login_email :: "string option"
  login_password :: "string option"

text \<open>\<open>POST /api/auth/login\<close>.\<close>

definition login :: "codec \<Rightarrow> login_body \<Rightarrow> db \<Rightarrow> response \<times> db" where
  "login c b d =
     (if \<not> truthy_str (login_email b) \<or> \<not> truthy_str (login_password b)
        then (Reply 400 (JsonError ''missing''), d)
      else
        case user_by_email (the (login_email b)) d of
          None \<Rightarrow> (Reply 401 (JsonError ''invalid''), d)
        | Some row \<Rightarrow>
            (if \<not> comparePassword c (the (login_password b)) (user_password row)
               then (Reply 401 (JsonError ''invalid''), d)
             else
               let user = public_of row
               in (Reply 200 (JsonSession (signToken c user) user), d)))"

text \<open>\<open>GET /api/me\<close>.\<close>

definition get_me :: "pubuser \<Rightarrow> db \<Rightarrow> response \<times> db" where
  "get_me user d = (Reply 200 (JsonUser user), d)"

text \<open>
  \<open>GET /setup-admin\<close>: the one route that writes a role. A constraint failure of its
  INSERT (the e-mail or the username already taken by a plain user) is not caught.
\<close>

definition setup_admin :: "codec \<Rightarrow> string \<Rightarrow> nat \<Rightarrow> db \<Rightarrow> response \<times> db" where
  "setup_admin c newid createdAt d =
     (case find (\<lambda>u. user_role u = ''admin'') (users d) of
        Some existing \<Rightarrow>
          (Reply 200 (PlainText
             ''admin exists. delete data.db to recreate or remove this route''), d)
      | None \<Rightarrow>
          (let email = ''admin@local''; pwd = ''admin123''; hash = hashPassword c pwd in
           case insert_user
                  \<lparr>user_id = newid, user_email = Some email, user_password = hash,
                   user_name = Some ''Admin'', user_username = Some ''admin'',
                   user_role = ''admin'', user_createdAt = createdAt\<rparr> (users d) of
             Inl e \<Rightarrow> (Uncaught e, d)
           | Inr us \<Rightarrow>
               (Reply 200 (PlainText (''admin created: '' @ email @ '' / '' @ pwd)),
                d\<lparr>users := us\<rparr>)))"

subsection \<open>Stories, favorites, checkout, announcements\<close>

record story_body =
  new_title :: "string option"
  new_excerpt :: "string option"
  new_body :: "string option"
  new_tags :: "string list option"
  new_type :: "string option"
  new_price :: js_scalar

text \<open>
  \<open>POST /api/stories\<close>. \<open>likes\<close> takes the column's default 0. The handler binds
  \<open>price||null\<close> whatever the type of \<open>price\<close>: a string that is not empty is truthy, also
  the string \<open>'0'\<close>, which the column stores as the number 0.
\<close>

definition create_story ::
  "codec \<Rightarrow> pubuser \<Rightarrow> story_body \<Rightarrow> string \<Rightarrow> nat \<Rightarrow> db \<Rightarrow> response \<times> db" where
  "create_story c user b newid createdAt d =
     (if \<not> truthy_str (new_title b) \<or> \<not> truthy_str (new_body b)
        then (Reply 400 (JsonError ''missing title/body''), d)
      else
        case insert_story
               \<lparr>story_id = newid, story_authorId = pub_id user,
                story_title = the (new_title b), story_excerpt = or_str (new_excerpt b) [],
                story_body = the (new_body b),
                story_tags = (case new_tags b of None \<Rightarrow> [] | Some ts \<Rightarrow> ts),
                story_type = or_str (new_type b) ''leia'',
                story_price = bind_real (real_affinity c) (or_null_scalar (new_price b)),
                story_likes = 0, story_createdAt = createdAt\<rparr> (stories d) of
          Inl e \<Rightarrow> (Uncaught e, d)
        | Inr ss \<Rightarrow>
            (let d' = d\<lparr>stories := ss\<rparr>
             in (Reply 200 (JsonStory (story_by_id newid d')), d')))"

text \<open>\<open>GET /api/stories/:id\<close>.\<close>

definition get_story :: "string \<Rightarrow> db \<Rightarrow> response \<times> db" where
  "get_story i d =
     (case story_by_id i d of
        None \<Rightarrow> (Reply 404 (JsonError ''not found''), d)
      | Some s \<Rightarrow> (Reply 200 (JsonStory (Some s)), d))"

text \<open>\<open>DELETE /api/stories/:id\<close>.\<close>

definition delete_story :: "pubuser \<Rightarrow> string \<Rightarrow> db \<Rightarrow> response \<times> db" where
  "delete_story user i d =
     (case story_by_id i d of
        None \<Rightarrow> (Reply 404 (JsonError ''not found''), d)
      | Some s \<Rightarrow>
          (if story_authorId s \<noteq> pub_id user \<and> pub_role user \<noteq> ''admin''
             then (Reply 403 (JsonError ''not allowed''), d)
           else (Reply 200 JsonOk, d\<lparr>stories := filter (\<lambda>r. story_id r \<noteq> i) (stories d)\<rparr>)))"

text \<open>\<open>POST /api/stories/:id/favorite\<close>.\<close>

definition toggle_favorite :: "pubuser \<Rightarrow> string \<Rightarrow> string \<Rightarrow> nat \<Rightarrow> db \<Rightarrow> response \<times> db" where
  "toggle_favorite user storyId newid createdAt d =
     (case favorite_of (pub_id user) storyId d of
        Some existing \<Rightarrow>
          (Reply 200 (JsonAction ''removed''),
           d\<lparr>favorites := filter (\<lambda>f. fav_id f \<noteq> fav_id existing) (favorites d)\<rparr>)
      | None \<Rightarrow>
          (case insert_favorite
                  \<lparr>fav_id = newid, fav_userId = pub_id user, fav_storyId = storyId,
                   fav_createdAt = createdAt\<rparr> (favorites d) of
             Inl e \<Rightarrow> (Uncaught e, d)
           | Inr fs \<Rightarrow> (Reply 200 (JsonAction ''added''), d\<lparr>favorites := fs\<rparr>)))"

text \<open>
  \<open>POST /api/checkout\<close>. \<open>!story.price\<close> holds for NULL, for the number 0 and for the
  empty text. The \<open>uid()\<close> of the call goes into the link only.
\<close>

definition checkout :: "pubuser \<Rightarrow> string \<Rightarrow> string \<Rightarrow> db \<Rightarrow> response \<times> db" where
  "checkout user storyId newid d =
     (case story_by_id storyId d of
        None \<Rightarrow> (Reply 404 (JsonError ''story not found''), d)
      | Some story \<Rightarrow>
          (if \<not> truthy_sql (story_price story)
             then (Reply 400 (JsonError ''not for sale''), d)
           else
             (Reply 200 (JsonCheckout
                \<lparr>link_url = ''https://pagamento-simulado.local/checkout/'' @ newid,
                 link_amount = story_price story, link_storyId = storyId\<rparr>), d)))"

record announce_body =
  new_message :: string
  new_pinned :: bool

text \<open>\<open>POST /api/admin/announce\<close>.\<close>

definition announce :: "pubuser \<Rightarrow> announce_body \<Rightarrow> string \<Rightarrow> nat \<Rightarrow> db \<Rightarrow> response \<times> db" where
  "announce user b newid createdAt d =
     (if pub_role user \<noteq> ''admin'' then (Reply 403 (JsonError ''not allowed''), d)
      else
        case insert_announcement
               \<lparr>ann_id = newid, ann_authorId = pub_id user, ann_message = new_message b,
                ann_pinned = (if new_pinned b then 1 else 0), ann_createdAt = createdAt\<rparr>
               (announcements d) of
          Inl e \<Rightarrow> (Uncaught e, d)
        | Inr as \<Rightarrow> (Reply 200 JsonOk, d\<lparr>announcements := as\<rparr>))"

subsection \<open>The chat hub\<close>

text \<open>
  Socket.IO keeps, for every room name, the set of sockets in it. \<open>socket.join\<close> adds the
  socket to the room; \<open>io.to(room).emit\<close> sends the event to every socket of the room.
\<close>

type_synonym socket = string
type_synonym rooms = "string \<Rightarrow> socket set"

text \<open>
  Both listeners take their argument by destructuring, \<open>({conversationId}) => ...\<close>. An
  event sent with no argument, or with null, cannot be destructured: the listener throws a
  TypeError before its first statement, nothing catches it, and Node ends the process.
  The argument of an event is \<open>None\<close> for such an event and the payload object otherwise.
  The other exception of a listener is the store's.
\<close>

datatype thrown = TypeError | StoreError sqlite_error

record join_payload =
  join_conversationId :: "string option"

text \<open>\<open>socket.on('join')\<close>.\<close>

definition on_join :: "socket \<Rightarrow> join_payload option \<Rightarrow> rooms \<Rightarrow> thrown + rooms" where
  "on_join sock arg rs =
     (case arg of
        None \<Rightarrow> Inl TypeError
      | Some p \<Rightarrow>
          (let conversationId = (if \<not> truthy_str (join_conversationId p) then ''public''
                                 else the (join_conversationId p))
           in Inr (rs(conversationId := insert sock (rs conversationId)))))"

record message_payload =
  in_conversationId :: "string option"
  in_senderId :: "string option"
  in_content :: string

text \<open>The event \<open>message\<close> as emitted: \<open>{id, conversationId, senderId, content, createdAt}\<close>.\<close>

record message_event =
  out_id :: string
  out_conversationId :: string
  out_senderId :: "string option"
  out_content :: string
  out_createdAt :: nat

text \<open>
  \<open>socket.on('message')\<close>. The INSERT runs first; when it throws, the handler is left
  before the emit. The result is the exception, or the event with the sockets it goes to.
\<close>

definition on_message ::
  "message_payload option \<Rightarrow> string \<Rightarrow> nat \<Rightarrow> rooms \<Rightarrow> db
     \<Rightarrow> (thrown + socket set \<times> message_event) \<times> db" where
  "on_message arg newid createdAt rs d =
     (case arg of
        None \<Rightarrow> (Inl TypeError, d)
      | Some p \<Rightarrow>
          (let conversationId = (if \<not> truthy_str (in_conversationId p) then ''public''
                                 else the (in_conversationId p))
           in case insert_message
                     \<lparr>msg_id = newid, msg_conversationId = conversationId,
                      msg_senderId = or_str (in_senderId p) ''anon'',
                      msg_content = in_content p, msg_createdAt = createdAt\<rparr>
                     (messages d) of
                Inl e \<Rightarrow> (Inl (StoreError e), d)
              | Inr ms \<Rightarrow>
                  (Inr (rs conversationId,
                        \<lparr>out_id = newid, out_conversationId = conversationId,
                         out_senderId = in_senderId p, out_content = in_content p,
                         out_createdAt = createdAt\<rparr>),
                   d\<lparr>messages := ms\<rparr>)))"

subsection \<open>The server as a transition system\<close>

text \<open>
  The routes that write or that a property below reads, with the \<open>Authorization\<close> header
  of the request where the route is behind \<open>authMiddleware\<close>. The listing routes and the
  pages only read.
\<close>

datatype request =
    Register register_body
  | Login login_body
  | GetMe "string option"
  | CreateStory "string option" story_body
  | GetStory string
  | DeleteStory "string option" string
  | ToggleFavorite "string option" string
  | Checkout "string option" string
  | Announce "string option" announce_body
  | SetupAdmin
  | SocketMessage "message_payload option"

text \<open>
  One request against the store; \<open>newid\<close> and \<open>t\<close> are what \<open>uid()\<close> and \<open>now()\<close> return.
  The tables are the file \<open>data.db\<close>: a listener's TypeError ends the process and leaves
  them as they are.
\<close>

fun handle :: "codec \<Rightarrow> rooms \<Rightarrow> string \<Rightarrow> nat \<Rightarrow> request \<Rightarrow> db \<Rightarrow> db" where
  "handle c rs newid t (Register b) d = snd (register c b newid t d)"
| "handle c rs newid t (Login b) d = snd (login c b d)"
| "handle c rs newid t (GetMe auth) d = snd (protected c auth d (\<lambda>u. get_me u d))"
| "handle c rs newid t (CreateStory auth b) d =
     snd (protected c auth d (\<lambda>u. create_story c u b newid t d))"
| "handle c rs newid t (GetStory i) d = snd (get_story i d)"
| "handle c rs newid t (DeleteStory auth i) d =
     snd (protected c auth d (\<lambda>u. delete_story u i d))"
| "handle c rs newid t (ToggleFavorite auth i) d =
     snd (protected c auth d (\<lambda>u. toggle_favorite u i newid t d))"
| "handle c rs newid t (Checkout auth i) d =
     snd (protected c auth d (\<lambda>u. checkout u i newid d))"
| "handle c rs newid t (Announce auth b) d =
     snd (protected c auth d (\<lambda>u. announce u b newid t d))"
| "handle c rs newid t SetupAdmin d = snd (setup_admin c newid t d)"
| "handle c rs newid t (SocketMessage p) d = snd (on_message p newid t rs d)"

text \<open>The stores the server can be in: from the empty tables, any number of requests.\<close>

inductive reachable :: "codec \<Rightarrow> db \<Rightarrow> bool" for c :: codec where
  reachable_empty: "reachable c empty_db"
| reachable_step: "reachable c d \<Longrightarrow> reachable c (handle c rs newid t r d)"

subsection \<open>Views of the store\<close>

text \<open>The rows with role \<open>'admin'\<close>.\<close>

definition admins :: "db \<Rightarrow> user_row list" where
  "admins d = filter (\<lambda>u. user_role u = ''admin'') (users d)"

text \<open>The favorites as a relation between users and stories.\<close>

definition fav_rel :: "db \<Rightarrow> (string \<times> string) set" where
  "fav_rel d = set (map (\<lambda>f. (fav_userId f, fav_storyId f)) (favorites d))"

text \<open>
  What the handlers keep of the favorites: an identity is held by one row, and so is a
  pair of user and story.
\<close>

definition fav_inv :: "db \<Rightarrow> bool" where
  "fav_inv d = (distinct (map fav_id (favorites d))
     \<and> distinct (map (\<lambda>f. (fav_userId f, fav_storyId f)) (favorites d)))"

subsection \<open>A store and a codec for the worked examples\<close>

text \<open>
  A stand-in for the libraries: the hash of \<open>p\<close> is \<open>#p\<close>, a token is
  \<open>sub.role\<close>, three tokens verify, and of the texts the examples bind to \<open>price\<close> the
  numeric literals are \<open>'0'\<close> and \<open>'10'\<close>, which SQLite stores as 0.0 and 10.0.
\<close>

definition demo_codec :: codec where
  "demo_codec =
     \<lparr>bcrypt_hash = (\<lambda>p. ''#'' @ p),
      bcrypt_compare = (\<lambda>p h. h = ''#'' @ p),
      jwt_sign = (\<lambda>t. sub t @ ''.'' @ role t),
      jwt_verify = (\<lambda>t. if t = ''u1.user'' then Some \<lparr>sub = ''u1'', role = ''user''\<rparr>
                          else if t = ''u2.user'' then Some \<lparr>sub = ''u2'', role = ''user''\<rparr>
                          else if t = ''a1.admin'' then Some \<lparr>sub = ''a1'', role = ''admin''\<rparr>
                          else None),
      real_affinity = (\<lambda>s. if s = ''0'' then Some 0 else if s = ''10'' then Some 10
                             else None)\<rparr>"

definition demo_users :: "user_row list" where
  "demo_users =
     [\<lparr>user_id = ''u1'', user_email = Some ''a@x'', user_password = ''#p1'',
       user_name = None, user_username = None, user_role = ''user'', user_createdAt = 1\<rparr>,
      \<lparr>user_id = ''u2'', user_email = Some ''b@x'', user_password = ''#p2'',
       user_name = None, user_username = None, user_role = ''user'', user_createdAt = 2\<rparr>]"

definition demo_stories :: "story_row list" where
  "demo_stories =
     [\<lparr>story_id = ''s1'', story_authorId = ''u1'', story_title = ''T'', story_excerpt = [],
       story_body = ''B'', story_tags = [], story_type = ''leia'', story_price = SqlNull,
       story_likes = 0, story_createdAt = 3\<rparr>,
      \<lparr>story_id = ''s2'', story_authorId = ''u1'', story_title = ''T2'', story_excerpt = [],
       story_body = ''B2'', story_tags = [], story_type = ''venda'', story_price = SqlReal 5,
       story_likes = 0, story_createdAt = 4\<rparr>]"

definition demo_db :: db where
  "demo_db = \<lparr>users = demo_users, stories = demo_stories, favorites = [], messages = [],
     announcements = []\<rparr>"

definition pub_u1 :: pubuser where
  "pub_u1 = \<lparr>pub_id = ''u1'', pub_email = Some ''a@x'', pub_name = None, pub_username = None,
     pub_role = ''user''\<rparr>"

definition pub_u2 :: pubuser where
  "pub_u2 = \<lparr>pub_id = ''u2'', pub_email = Some ''b@x'', pub_name = None, pub_username = None,
     pub_role = ''user''\<rparr>"

text \<open>The store \<open>demo_db\<close> after \<open>u2\<close> has made \<open>s1\<close> a favorite.\<close>

definition fav_db :: db where
  "fav_db = demo_db\<lparr>favorites :=
     [\<lparr>fav_id = ''f1'', fav_userId = ''u2'', fav_storyId = ''s1'', fav_createdAt = 5\<rparr>]\<rparr>"

text \<open>The store \<open>demo_db\<close> with the admin of \<open>/setup-admin\<close>.\<close>

definition admin_db :: db where
  "admin_db = demo_db\<lparr>users := demo_users @
     [\<lparr>user_id = ''a1'', user_email = Some ''admin@local'', user_password = ''#admin123'',
       user_name = Some ''Admin'', user_username = Some ''admin'', user_role = ''admin'',
       user_createdAt = 5\<rparr>]\<rparr>"

text \<open>A request for a story of the reading type that carries a price, and the row it gives.\<close>

definition priced_reading_body :: story_body where
  "priced_reading_body =
     \<lparr>new_title = Some ''T3'', new_excerpt = None, new_body = Some ''B3'', new_tags = None,
      new_type = Some ''leia'', new_price = JsNumber 10\<rparr>"

definition priced_reading_row :: story_row where
  "priced_reading_row =
     \<lparr>story_id = ''s3'', story_authorId = ''u1'', story_title = ''T3'', story_excerpt = [],
      story_body = ''B3'', story_tags = [], story_type = ''leia'', story_price = SqlReal 10,
      story_likes = 0, story_createdAt = 6\<rparr>"

text \<open>
  A request for a story for sale whose price is the string \<open>'0'\<close>, the row it gives, and
  the store \<open>demo_db\<close> with that row.
\<close>

definition zero_price_body :: story_body where
  "zero_price_body =
     \<lparr>new_title = Some ''T5'', new_excerpt = None, new_body = Some ''B5'', new_tags = None,
      new_type = Some ''venda'', new_price = JsString ''0''\<rparr>"

definition zero_price_row :: story_row where
  "zero_price_row =
     \<lparr>story_id = ''s5'', story_authorId = ''u1'', story_title = ''T5'', story_excerpt = [],
      story_body = ''B5'', story_tags = [], story_type = ''venda'', story_price = SqlReal 0,
      story_likes = 0, story_createdAt = 8\<rparr>"

definition zero_price_db :: db where
  "zero_price_db = demo_db\<lparr>stories := demo_stories @ [zero_price_row]\<rparr>"

text \<open>No socket in any room, and one socket in \<open>public\<close>.\<close>

definition no_rooms :: rooms where
  "no_rooms = (\<lambda>_. {})"

definition public_room :: rooms where
  "public_room = (\<lambda>_. {})(''public'' := {''k1''})"

section \<open>Properties\<close>

lemmas demo_defs =
  demo_codec_def demo_users_def demo_stories_def demo_db_def pub_u1_def pub_u2_def

subsection \<open>Lookups and inserts\<close>

lemma find_filter_key:
  "find (\<lambda>s. f s = j) (filter (\<lambda>r. f r \<noteq> i) xs)
     = (if j = i then None else find (\<lambda>s. f s = j) xs)"
  by (induction xs) auto

lemma story_by_id_filter:
  "story_by_id j (d\<lparr>stories := filter (\<lambda>r. story_id r \<noteq> i) (stories d)\<rparr>)
     = (if j = i then None else story_by_id j d)"
  by (simp add: story_by_id_def find_filter_key)

lemma insert_user_error:
  "insert_user r t = Inl e \<Longrightarrow> message_of e \<noteq> [] \<and> str_includes (message_of e) ''UNIQUE''"
  by (auto simp: insert_user_def split: if_splits)

lemma insert_user_Inr: "insert_user r t = Inr us \<Longrightarrow> us = t @ [r]"
  by (auto simp: insert_user_def split: if_splits)

lemma insert_user_taken:
  "user_email r \<noteq> None \<Longrightarrow> user_email r \<in> set (map user_email t)
     \<Longrightarrow> \<exists>e. insert_user r t = Inl e"
  by (auto simp: insert_user_def)

lemma truthy_str_Some: "truthy_str v \<Longrightarrow> v \<noteq> None"
  by (auto simp: truthy_str_def split: option.splits)

text \<open>The three outcomes of a registration.\<close>

lemma register_cases:
  "register c b newid t d = (Reply 400 (JsonError ''missing email or password''), d)
   \<or> register c b newid t d = (Reply 400 (JsonError ''email or username exists''), d)
   \<or> (\<exists>body row. register c b newid t d = (Reply 200 body, d\<lparr>users := users d @ [row]\<rparr>)
         \<and> user_role row = ''user'' \<and> user_email row = reg_email b
         \<and> truthy_str (reg_email b))"
proof (cases "\<not> truthy_str (reg_email b) \<or> \<not> truthy_str (reg_password b)")
  case True
  then show ?thesis by (simp add: register_def)
next
  case False
  let ?row = "\<lparr>user_id = newid, user_email = reg_email b,
                user_password = hashPassword c (the (reg_password b)),
                user_name = or_null_str (reg_name b),
                user_username = or_null_str (reg_username b),
                user_role = ''user'', user_createdAt = t\<rparr>"
  let ?user = "\<lparr>pub_id = newid, pub_email = reg_email b, pub_name = reg_name b,
                 pub_username = reg_username b, pub_role = ''user''\<rparr>"
  show ?thesis
  proof (cases "insert_user ?row (users d)")
    case (Inl e)
    with False insert_user_error[OF Inl] show ?thesis
      by (simp add: register_def Let_def)
  next
    case (Inr us)
    with False insert_user_Inr[OF Inr] have
      "register c b newid t d =
         (Reply 200 (JsonSession (signToken c ?user) ?user), d\<lparr>users := users d @ [?row]\<rparr>)"
      by (simp add: register_def Let_def)
    moreover have "user_role ?row = ''user''" and "user_email ?row = reg_email b"
      by simp_all
    ultimately show ?thesis using False by blast
  qed
qed

subsection \<open>Identity resolution\<close>

text \<open>
  C3. \<open>authMiddleware\<close> answers 401 exactly when the header is missing or empty, when
  \<open>jwt.verify\<close> rejects the token (malformed, wrongly signed or expired), or when no row of
  \<open>users\<close> has the token's subject as its id; it gives no other failure. On success
  \<open>req.user\<close> is the five public columns of that row: the type \<open>pubuser\<close> has no field
  for the password hash.
\<close>

theorem authMiddleware_unauthorized:
  "((\<exists>r. authMiddleware c auth d = Inl r) \<longleftrightarrow>
      (\<not> truthy_str auth
       \<or> verifyToken c (replace_first ''Bearer '' [] (the auth)) = None
       \<or> (\<exists>data. verifyToken c (replace_first ''Bearer '' [] (the auth)) = Some data
             \<and> user_by_id (sub data) d = None)))
   \<and> (\<forall>r. authMiddleware c auth d = Inl r \<longrightarrow> (\<exists>m. r = Reply 401 (JsonError m)))
   \<and> (\<forall>u. authMiddleware c auth d = Inr u \<longrightarrow>
         (\<exists>data row. verifyToken c (replace_first ''Bearer '' [] (the auth)) = Some data
            \<and> user_by_id (sub data) d = Some row
            \<and> u = \<lparr>pub_id = user_id row, pub_email = user_email row,
                    pub_name = user_name row, pub_username = user_username row,
                    pub_role = user_role row\<rparr>))"
  by (auto simp: authMiddleware_def public_of_def Let_def split: option.splits)

theorem authMiddleware_unauthorized_witness:
  "authMiddleware demo_codec None demo_db = Inl (Reply 401 (JsonError ''no token''))
   \<and> authMiddleware demo_codec (Some ''Bearer garbage'') demo_db
       = Inl (Reply 401 (JsonError ''invalid token''))
   \<and> authMiddleware demo_codec (Some ''Bearer a1.admin'') demo_db
       = Inl (Reply 401 (JsonError ''user not found''))
   \<and> authMiddleware demo_codec (Some ''Bearer u1.user'') demo_db = Inr pub_u1"
proof -
  have 1: "\<not> truthy_str None" by (simp add: truthy_str_def)
  have 2: "verifyToken demo_codec
             (replace_first ''Bearer '' [] (the (Some ''Bearer garbage''))) = None"
    by (simp add: verifyToken_def demo_defs)
  have 3: "verifyToken demo_codec
             (replace_first ''Bearer '' [] (the (Some ''Bearer a1.admin'')))
             = Some \<lparr>sub = ''a1'', role = ''admin''\<rparr>
           \<and> user_by_id (sub \<lparr>sub = ''a1'', role = ''admin''\<rparr>) demo_db = None"
    by (simp add: verifyToken_def user_by_id_def demo_defs)
  have 4: "\<not> (\<not> truthy_str (Some ''Bearer u1.user'')
       \<or> verifyToken demo_codec
            (replace_first ''Bearer '' [] (the (Some ''Bearer u1.user''))) = None
       \<or> (\<exists>data. verifyToken demo_codec
                    (replace_first ''Bearer '' [] (the (Some ''Bearer u1.user''))) = Some data
             \<and> user_by_id (sub data) demo_db = None))"
    by (simp add: verifyToken_def user_by_id_def truthy_str_def demo_defs)
  note A = authMiddleware_unauthorized[of demo_codec _ demo_db]
  from A[of None] 1
  obtain m1 where m1: "authMiddleware demo_codec None demo_db = Inl (Reply 401 (JsonError m1))"
    by blast
  from A[of "Some ''Bearer garbage''"] 2
  obtain m2 where m2: "authMiddleware demo_codec (Some ''Bearer garbage'') demo_db
      = Inl (Reply 401 (JsonError m2))"
    by blast
  from A[of "Some ''Bearer a1.admin''"] 3
  obtain m3 where m3: "authMiddleware demo_codec (Some ''Bearer a1.admin'') demo_db
      = Inl (Reply 401 (JsonError m3))"
    by blast
  from A[of "Some ''Bearer u1.user''"] 4
  obtain u where u: "authMiddleware demo_codec (Some ''Bearer u1.user'') demo_db = Inr u"
    by (metis sum.exhaust)
  show ?thesis using m1 m2 m3 u
    by (simp add: authMiddleware_def verifyToken_def user_by_id_def truthy_str_def
        public_of_def demo_defs)
qed

subsection \<open>Registration and login\<close>

text \<open>
  C4. After a registration that succeeded, a registration with the same e-mail that
  carries a password answers 400 \<open>email or username exists\<close> and leaves the store as it
  was, at any later store that still holds the rows of the first (no route deletes a
  user). The answer differs from the 400 \<open>missing email or password\<close> of a request
  without e-mail or password.
\<close>

theorem register_same_email_conflict:
  assumes "register c b1 id1 t1 d = (Reply 200 body1, d1)"
    and "set (users d1) \<subseteq> set (users d2)"
    and "reg_email b2 = reg_email b1" and "truthy_str (reg_password b2)"
  shows "register c b2 id2 t2 d2 = (Reply 400 (JsonError ''email or username exists''), d2)
       \<and> Reply 400 (JsonError ''email or username exists'')
           \<noteq> Reply 400 (JsonError ''missing email or password'')"
proof -
  from register_cases[of c b1 id1 t1 d] assms(1)
  obtain row where d1: "d1 = d\<lparr>users := users d @ [row]\<rparr>"
    and row: "user_email row = reg_email b1" and e1: "truthy_str (reg_email b1)"
    by auto
  from d1 row assms(2) have taken: "reg_email b1 \<in> set (map user_email (users d2))"
    by force
  let ?row2 = "\<lparr>user_id = id2, user_email = reg_email b2,
                user_password = hashPassword c (the (reg_password b2)),
                user_name = or_null_str (reg_name b2),
                user_username = or_null_str (reg_username b2),
                user_role = ''user'', user_createdAt = t2\<rparr>"
  from e1 have "reg_email b1 \<noteq> None" by (rule truthy_str_Some)
  with taken assms(3) obtain e where e: "insert_user ?row2 (users d2) = Inl e"
    using insert_user_taken[of ?row2 "users d2"] by auto
  from insert_user_error[OF e] e e1 assms(3,4) show ?thesis
    by (simp add: register_def Let_def)
qed

theorem register_same_email_conflict_witness:
  "register demo_codec \<lparr>reg_email = Some ''c@x'', reg_password = Some ''p2'', reg_name = None,
       reg_username = None\<rparr> ''u4'' 8
     (snd (register demo_codec \<lparr>reg_email = Some ''c@x'', reg_password = Some ''p1'',
        reg_name = None, reg_username = None\<rparr> ''u3'' 7 demo_db))
   = (Reply 400 (JsonError ''email or username exists''),
      snd (register demo_codec \<lparr>reg_email = Some ''c@x'', reg_password = Some ''p1'',
        reg_name = None, reg_username = None\<rparr> ''u3'' 7 demo_db))
   \<and> length (users (snd (register demo_codec \<lparr>reg_email = Some ''c@x'',
        reg_password = Some ''p1'', reg_name = None, reg_username = None\<rparr> ''u3'' 7 demo_db)))
       = 3"
proof -
  let ?b1 = "\<lparr>reg_email = Some ''c@x'', reg_password = Some ''p1'', reg_name = None,
       reg_username = None\<rparr>"
  let ?b2 = "\<lparr>reg_email = Some ''c@x'', reg_password = Some ''p2'', reg_name = None,
       reg_username = None\<rparr>"
  let ?d1 = "snd (register demo_codec ?b1 ''u3'' 7 demo_db)"
  let ?body = "JsonSession ''u3.user'' \<lparr>pub_id = ''u3'', pub_email = Some ''c@x'',
         pub_name = None, pub_username = None, pub_role = ''user''\<rparr>"
  have ev: "register demo_codec ?b1 ''u3'' 7 demo_db =
     (Reply 200 ?body,
      demo_db\<lparr>users := demo_users @ [\<lparr>user_id = ''u3'', user_email = Some ''c@x'',
         user_password = ''#p1'', user_name = None, user_username = None,
         user_role = ''user'', user_createdAt = 7\<rparr>]\<rparr>)"
    by (simp add: register_def insert_user_def truthy_str_def or_null_str_def hashPassword_def
        signToken_def demo_defs)
  have h1: "register demo_codec ?b1 ''u3'' 7 demo_db = (Reply 200 ?body, ?d1)"
    by (simp add: ev)
  have h2: "set (users ?d1) \<subseteq> set (users ?d1)" by simp
  have h3: "reg_email ?b2 = reg_email ?b1" by simp
  have h4: "truthy_str (reg_password ?b2)" by (simp add: truthy_str_def)
  have len: "length (users ?d1) = 3" unfolding ev by (simp add: demo_users_def)
  from register_same_email_conflict[OF h1 h2 h3 h4, of "''u4''" 8] len show ?thesis
    by simp
qed

text \<open>
  C5. A login whose e-mail matches no row and a login whose e-mail matches a row whose
  hash the password fails against get the same answer, 401 \<open>invalid\<close>, and neither
  changes the store.
\<close>

theorem login_failures_indistinguishable:
  assumes "truthy_str (login_email b1)" and "truthy_str (login_password b1)"
    and "truthy_str (login_email b2)" and "truthy_str (login_password b2)"
    and "user_by_email (the (login_email b1)) d1 = None"
    and "user_by_email (the (login_email b2)) d2 = Some row"
    and "\<not> comparePassword c (the (login_password b2)) (user_password row)"
  shows "fst (login c b1 d1) = fst (login c b2 d2)
       \<and> fst (login c b1 d1) = Reply 401 (JsonError ''invalid'')
       \<and> snd (login c b1 d1) = d1 \<and> snd (login c b2 d2) = d2"
  using assms by (simp add: login_def)

theorem login_failures_indistinguishable_witness:
  "fst (login demo_codec \<lparr>login_email = Some ''nobody@x'', login_password = Some ''p1''\<rparr>
          demo_db)
     = fst (login demo_codec \<lparr>login_email = Some ''a@x'', login_password = Some ''wrong''\<rparr>
          demo_db)
   \<and> fst (login demo_codec \<lparr>login_email = Some ''nobody@x'', login_password = Some ''p1''\<rparr>
          demo_db)
     = Reply 401 (JsonError ''invalid'')"
proof -
  let ?b1 = "\<lparr>login_email = Some ''nobody@x'', login_password = Some ''p1''\<rparr>"
  let ?b2 = "\<lparr>login_email = Some ''a@x'', login_password = Some ''wrong''\<rparr>"
  have h1: "truthy_str (login_email ?b1)" and h2: "truthy_str (login_password ?b1)"
    and h3: "truthy_str (login_email ?b2)" and h4: "truthy_str (login_password ?b2)"
    by (simp_all add: truthy_str_def)
  have h5: "user_by_email (the (login_email ?b1)) demo_db = None"
    by (simp add: user_by_email_def demo_defs)
  have h6: "user_by_email (the (login_email ?b2)) demo_db = Some (hd demo_users)"
    by (simp add: user_by_email_def demo_defs)
  have h7: "\<not> comparePassword demo_codec (the (login_password ?b2))
              (user_password (hd demo_users))"
    by (simp add: comparePassword_def demo_defs)
  from login_failures_indistinguishable[OF h1 h2 h3 h4 h5 h6 h7] show ?thesis by blast
qed

subsection \<open>Deleting a story\<close>

text \<open>
  C7. For a story that exists: a requester who is neither its author nor an admin gets
  403 and the store is unchanged; the author or an admin gets 200, the story is gone, every
  other story is as before and no other table changes.
\<close>

theorem delete_story_authorization:
  assumes "story_by_id i d = Some s"
  shows "(story_authorId s \<noteq> pub_id user \<and> pub_role user \<noteq> ''admin'' \<longrightarrow>
            delete_story user i d = (Reply 403 (JsonError ''not allowed''), d))
       \<and> (story_authorId s = pub_id user \<or> pub_role user = ''admin'' \<longrightarrow>
            (\<exists>d'. delete_story user i d = (Reply 200 JsonOk, d')
               \<and> story_by_id i d' = None
               \<and> (\<forall>j. j \<noteq> i \<longrightarrow> story_by_id j d' = story_by_id j d)
               \<and> stories d' = filter (\<lambda>r. story_id r \<noteq> i) (stories d)
               \<and> users d' = users d \<and> favorites d' = favorites d
               \<and> messages d' = messages d \<and> announcements d' = announcements d))"
  using assms by (auto simp: delete_story_def story_by_id_filter)

theorem delete_story_authorization_witness:
  "delete_story pub_u2 ''s1'' demo_db = (Reply 403 (JsonError ''not allowed''), demo_db)
   \<and> fst (delete_story pub_u1 ''s1'' demo_db) = Reply 200 JsonOk
   \<and> story_by_id ''s1'' (snd (delete_story pub_u1 ''s1'' demo_db)) = None"
proof -
  have h: "story_by_id ''s1'' demo_db = Some (hd demo_stories)"
    by (simp add: story_by_id_def demo_defs)
  have a: "story_authorId (hd demo_stories) \<noteq> pub_id pub_u2 \<and> pub_role pub_u2 \<noteq> ''admin''"
    by (simp add: demo_defs)
  have b: "story_authorId (hd demo_stories) = pub_id pub_u1 \<or> pub_role pub_u1 = ''admin''"
    by (simp add: demo_defs)
  from delete_story_authorization[OF h, of pub_u2] a
  have 1: "delete_story pub_u2 ''s1'' demo_db = (Reply 403 (JsonError ''not allowed''), demo_db)"
    by blast
  from delete_story_authorization[OF h, of pub_u1] b
  obtain d' where "delete_story pub_u1 ''s1'' demo_db = (Reply 200 JsonOk, d')"
    and "story_by_id ''s1'' d' = None" by blast
  with 1 show ?thesis by simp
qed

subsection \<open>What each handler writes\<close>

lemma protected_cases:
  "(\<exists>r. authMiddleware c auth d = Inl r \<and> protected c auth d k = (r, d))
   \<or> (\<exists>u. authMiddleware c auth d = Inr u \<and> protected c auth d k = k u)"
  by (cases "authMiddleware c auth d") (simp_all add: protected_def)

lemma find_append_new:
  "find P xs = None \<Longrightarrow> P x \<Longrightarrow> find P (xs @ [x]) = Some x"
  by (induction xs) (auto split: if_splits)

lemma filter_key_set:
  assumes "distinct (map f xs)" and "e \<in> set xs"
  shows "set (filter (\<lambda>x. f x \<noteq> f e) xs) = set xs - {e}"
proof -
  from assms(1) have "inj_on f (set xs)" by (simp add: distinct_map)
  with assms(2) show ?thesis by (auto dest: inj_onD)
qed

lemma filter_fresh: "k \<notin> set (map f xs) \<Longrightarrow> filter (\<lambda>x. f x \<noteq> k) xs = xs"
  by (induction xs) auto

lemma users_create_story: "users (snd (create_story c u b n t d)) = users d"
  by (simp add: create_story_def Let_def split: sum.splits)

lemma users_delete_story: "users (snd (delete_story u i d)) = users d"
  by (simp add: delete_story_def split: option.splits)

lemma users_toggle_favorite: "users (snd (toggle_favorite u i n t d)) = users d"
  by (simp add: toggle_favorite_def split: option.splits sum.splits)

lemma users_announce: "users (snd (announce u b n t d)) = users d"
  by (simp add: announce_def split: sum.splits)

lemma users_on_message: "users (snd (on_message p n t rs d)) = users d"
  by (simp add: on_message_def Let_def split: option.splits sum.splits)

lemma snd_login: "snd (login c b d) = d"
  by (simp add: login_def Let_def split: option.splits)

lemma snd_get_story: "snd (get_story i d) = d"
  by (simp add: get_story_def split: option.splits)

lemma snd_checkout: "snd (checkout u i n d) = d"
  by (simp add: checkout_def split: option.splits)

lemma users_register:
  "users (snd (register c b newid t d)) = users d
   \<or> (\<exists>row. users (snd (register c b newid t d)) = users d @ [row] \<and> user_role row = ''user'')"
  using register_cases[of c b newid t d] by auto

lemma admins_register: "admins (snd (register c b newid t d)) = admins d"
  using users_register[of c b newid t d] by (auto simp: admins_def)

lemma users_handle_other:
  assumes "r \<noteq> SetupAdmin" and "\<forall>b. r \<noteq> Register b"
  shows "users (handle c rs newid t r d) = users d"
proof (cases r)
  case (Register b)
  with assms show ?thesis by simp
next
  case (Login b)
  then show ?thesis by (simp add: snd_login)
next
  case (GetMe auth)
  then show ?thesis using protected_cases[of c auth d "\<lambda>u. get_me u d"]
    by (auto simp: get_me_def)
next
  case (CreateStory auth b)
  then show ?thesis using protected_cases[of c auth d "\<lambda>u. create_story c u b newid t d"]
    by (auto simp: users_create_story)
next
  case (GetStory i)
  then show ?thesis by (simp add: snd_get_story)
next
  case (DeleteStory auth i)
  then show ?thesis using protected_cases[of c auth d "\<lambda>u. delete_story u i d"]
    by (auto simp: users_delete_story)
next
  case (ToggleFavorite auth i)
  then show ?thesis using protected_cases[of c auth d "\<lambda>u. toggle_favorite u i newid t d"]
    by (auto simp: users_toggle_favorite)
next
  case (Checkout auth i)
  then show ?thesis using protected_cases[of c auth d "\<lambda>u. checkout u i newid d"]
    by (auto simp: snd_checkout)
next
  case (Announce auth b)
  then show ?thesis using protected_cases[of c auth d "\<lambda>u. announce u b newid t d"]
    by (auto simp: users_announce)
next
  case SetupAdmin
  with assms show ?thesis by simp
next
  case (SocketMessage p)
  then show ?thesis by (simp add: users_on_message)
qed

text \<open>No request removes a row of \<open>users\<close>.\<close>

lemma users_setup_admin:
  "users (snd (setup_admin c n t d)) = users d
   \<or> (\<exists>row. users (snd (setup_admin c n t d)) = users d @ [row])"
  by (auto simp: setup_admin_def insert_user_def Let_def split: option.splits)

lemma users_kept: "set (users d) \<subseteq> set (users (handle c rs n t r d))"
proof (cases r)
  case (Register b)
  then show ?thesis using users_register[of c b n t d] by auto
next
  case SetupAdmin
  then show ?thesis using users_setup_admin[of c n t d] by auto
qed (insert users_handle_other[of r c rs n t d], auto)

subsection \<open>Favorites\<close>

lemma toggle_favorite_absent:
  assumes "(pub_id user, i) \<notin> fav_rel d" and "newid \<notin> set (map fav_id (favorites d))"
  shows "toggle_favorite user i newid t d =
           (Reply 200 (JsonAction ''added''),
            d\<lparr>favorites := favorites d @
               [\<lparr>fav_id = newid, fav_userId = pub_id user, fav_storyId = i,
                 fav_createdAt = t\<rparr>]\<rparr>)"
proof -
  from assms(1) have "favorite_of (pub_id user) i d = None"
    by (force simp: favorite_of_def fav_rel_def find_None_iff)
  with assms(2) show ?thesis
    by (simp add: toggle_favorite_def insert_favorite_def)
qed

lemma toggle_favorite_present:
  assumes "(pub_id user, i) \<in> fav_rel d"
  shows "\<exists>e. e \<in> set (favorites d) \<and> fav_userId e = pub_id user \<and> fav_storyId e = i
           \<and> toggle_favorite user i newid t d =
               (Reply 200 (JsonAction ''removed''),
                d\<lparr>favorites := filter (\<lambda>f. fav_id f \<noteq> fav_id e) (favorites d)\<rparr>)"
proof -
  from assms obtain e where "favorite_of (pub_id user) i d = Some e"
    by (cases "favorite_of (pub_id user) i d")
       (auto simp: favorite_of_def fav_rel_def find_None_iff)
  moreover from this
  have "e \<in> set (favorites d) \<and> fav_userId e = pub_id user \<and> fav_storyId e = i"
    by (auto simp: favorite_of_def find_Some_iff)
  ultimately show ?thesis by (auto simp: toggle_favorite_def)
qed

lemma fav_rel_removed:
  assumes "fav_inv d" and "e \<in> set (favorites d)"
  shows "fav_rel (d\<lparr>favorites := filter (\<lambda>f. fav_id f \<noteq> fav_id e) (favorites d)\<rparr>)
           = fav_rel d - {(fav_userId e, fav_storyId e)}"
proof -
  let ?p = "\<lambda>f. (fav_userId f, fav_storyId f)"
  from assms
  have s: "set (filter (\<lambda>f. fav_id f \<noteq> fav_id e) (favorites d)) = set (favorites d) - {e}"
    by (intro filter_key_set) (auto simp: fav_inv_def)
  from assms(1) have "inj_on ?p (set (favorites d))"
    by (simp add: fav_inv_def distinct_map)
  with assms(2) have "?p ` (set (favorites d) - {e}) = ?p ` set (favorites d) - {?p e}"
    by (auto dest: inj_onD)
  with s show ?thesis by (simp add: fav_rel_def)
qed

lemma fav_inv_toggle: "fav_inv d \<Longrightarrow> fav_inv (snd (toggle_favorite u i n t d))"
proof (cases "favorite_of (pub_id u) i d")
  case None
  assume inv: "fav_inv d"
  from None have "(pub_id u, i) \<notin> (\<lambda>f. (fav_userId f, fav_storyId f)) ` set (favorites d)"
    by (force simp: favorite_of_def find_None_iff)
  with inv None show ?thesis
    by (auto simp: toggle_favorite_def insert_favorite_def fav_inv_def)
next
  case (Some e)
  assume "fav_inv d"
  with Some show ?thesis
    by (simp add: toggle_favorite_def fav_inv_def distinct_map_filter)
qed

subsection \<open>What holds in every store the server reaches\<close>

lemma fav_inv_same: "favorites d' = favorites d \<Longrightarrow> fav_inv d' = fav_inv d"
  by (simp add: fav_inv_def)

lemma inv_register: "fav_inv (snd (register c b n t d)) = fav_inv d"
  by (rule fav_inv_same) (simp add: register_def Let_def split: sum.splits)

lemma inv_setup_admin: "fav_inv (snd (setup_admin c n t d)) = fav_inv d"
  by (rule fav_inv_same) (simp add: setup_admin_def Let_def split: sum.splits option.splits)

lemma inv_announce: "fav_inv (snd (announce u b n t d)) = fav_inv d"
  by (rule fav_inv_same) (simp add: announce_def split: sum.splits)

lemma inv_on_message: "fav_inv (snd (on_message p n t rs d)) = fav_inv d"
  by (rule fav_inv_same) (simp add: on_message_def Let_def split: option.splits sum.splits)

lemma inv_create_story: "fav_inv (snd (create_story c u b n t d)) = fav_inv d"
  by (rule fav_inv_same) (simp add: create_story_def Let_def split: sum.splits)

lemma inv_delete_story: "fav_inv (snd (delete_story u i d)) = fav_inv d"
  by (rule fav_inv_same) (simp add: delete_story_def split: option.splits)

lemma inv_protected:
  assumes "fav_inv d" and "\<And>u. fav_inv (snd (k u))"
  shows "fav_inv (snd (protected c auth d k))"
  using protected_cases[of c auth d k] assms by auto

lemma inv_handle:
  assumes "fav_inv d"
  shows "fav_inv (handle c rs n t r d)"
proof (cases r)
  case (Register b)
  with assms show ?thesis by (simp add: inv_register)
next
  case (Login b)
  with assms show ?thesis by (simp add: snd_login)
next
  case (GetMe auth)
  with assms show ?thesis by (simp add: inv_protected get_me_def)
next
  case (CreateStory auth b)
  with assms show ?thesis by (simp add: inv_protected inv_create_story)
next
  case (GetStory i)
  with assms show ?thesis by (simp add: snd_get_story)
next
  case (DeleteStory auth i)
  with assms show ?thesis by (simp add: inv_protected inv_delete_story)
next
  case (ToggleFavorite auth i)
  with assms show ?thesis by (simp add: inv_protected fav_inv_toggle)
next
  case (Checkout auth i)
  with assms show ?thesis by (simp add: inv_protected snd_checkout)
next
  case (Announce auth b)
  with assms show ?thesis by (simp add: inv_protected inv_announce)
next
  case SetupAdmin
  with assms show ?thesis by (simp add: inv_setup_admin)
next
  case (SocketMessage p)
  with assms show ?thesis by (simp add: inv_on_message)
qed

lemma reachable_inv: "reachable c d \<Longrightarrow> fav_inv d"
proof (induction rule: reachable.induct)
  case reachable_empty
  show ?case by (simp add: fav_inv_def empty_db_def)
next
  case (reachable_step d rs newid t r)
  then show ?case by (simp add: inv_handle)
qed

text \<open>The example store is one the server reaches: two registrations, two stories.\<close>

lemma demo_db_reachable: "reachable demo_codec demo_db"
proof -
  let ?d1 = "handle demo_codec no_rooms ''u1'' 1
      (Register \<lparr>reg_email = Some ''a@x'', reg_password = Some ''p1'', reg_name = None,
         reg_username = None\<rparr>) empty_db"
  let ?d2 = "handle demo_codec no_rooms ''u2'' 2
      (Register \<lparr>reg_email = Some ''b@x'', reg_password = Some ''p2'', reg_name = None,
         reg_username = None\<rparr>) ?d1"
  let ?d3 = "handle demo_codec no_rooms ''s1'' 3
      (CreateStory (Some ''Bearer u1.user'')
         \<lparr>new_title = Some ''T'', new_excerpt = None, new_body = Some ''B'', new_tags = None,
          new_type = None, new_price = JsAbsent\<rparr>) ?d2"
  let ?d4 = "handle demo_codec no_rooms ''s2'' 4
      (CreateStory (Some ''u1.user'')
         \<lparr>new_title = Some ''T2'', new_excerpt = Some [], new_body = Some ''B2'',
          new_tags = Some [], new_type = Some ''venda'', new_price = JsNumber 5\<rparr>) ?d3"
  have 1: "?d1 = empty_db\<lparr>users := [hd demo_users]\<rparr>"
    by (simp add: register_def insert_user_def truthy_str_def or_null_str_def hashPassword_def
        signToken_def demo_defs empty_db_def)
  have 2: "?d2 = empty_db\<lparr>users := demo_users\<rparr>"
    unfolding 1
    by (simp add: register_def insert_user_def truthy_str_def or_null_str_def hashPassword_def
        signToken_def demo_defs empty_db_def)
  have 3: "?d3 = empty_db\<lparr>users := demo_users, stories := [hd demo_stories]\<rparr>"
    unfolding 2
    by (simp add: protected_def authMiddleware_def verifyToken_def user_by_id_def
        create_story_def insert_story_def truthy_str_def or_str_def or_null_scalar_def
        truthy_scalar_def bind_real_def public_of_def story_by_id_def demo_defs empty_db_def)
  have 4: "?d4 = demo_db"
    unfolding 3
    by (simp add: protected_def authMiddleware_def verifyToken_def user_by_id_def
        create_story_def insert_story_def truthy_str_def or_str_def or_null_scalar_def
        truthy_scalar_def bind_real_def public_of_def story_by_id_def demo_defs empty_db_def)
  have "reachable demo_codec ?d4"
    by (intro reachable.intros)
  with 4 show ?thesis by simp
qed

lemma fav_db_reachable: "reachable demo_codec fav_db"
proof -
  have "handle demo_codec no_rooms ''f1'' 5 (ToggleFavorite (Some ''Bearer u2.user'') ''s1'')
          demo_db = fav_db"
    by (simp add: protected_def authMiddleware_def verifyToken_def user_by_id_def
        toggle_favorite_def favorite_of_def insert_favorite_def truthy_str_def public_of_def
        fav_db_def demo_defs)
  with reachable_step[OF demo_db_reachable, of no_rooms "''f1''" 5
      "ToggleFavorite (Some ''Bearer u2.user'') ''s1''"]
  show ?thesis by simp
qed

subsection \<open>Creating a story\<close>

text \<open>
  C1, as the code has it. A create that succeeds appends one row, answers with it, and the
  row's price is the request's price when that is a number other than zero and NULL when
  it is missing, null or zero, whatever the type; a string that is not empty is stored as
  the number it spells when it is a numeric literal and as text otherwise, and the empty
  string as NULL. The type is the request's, or \<open>'leia'\<close> when that is missing or empty.
  The handler never reads the type to decide the price.
\<close>

theorem create_story_price:
  assumes "create_story c user b newid t d = (Reply 200 body, d')"
  shows "\<exists>row. stories d' = stories d @ [row]
           \<and> body = JsonStory (Some row)
           \<and> story_by_id newid d' = Some row
           \<and> story_type row = or_str (new_type b) ''leia''
           \<and> story_price row =
               (case new_price b of
                  JsAbsent \<Rightarrow> SqlNull
                | JsNumber n \<Rightarrow> if n = 0 then SqlNull else SqlReal n
                | JsString s \<Rightarrow>
                    if s = [] then SqlNull
                    else (case real_affinity c s of
                            Some n \<Rightarrow> SqlReal n
                          | None \<Rightarrow> SqlText s))"
proof -
  let ?row = "\<lparr>story_id = newid, story_authorId = pub_id user,
                story_title = the (new_title b), story_excerpt = or_str (new_excerpt b) [],
                story_body = the (new_body b),
                story_tags = (case new_tags b of None \<Rightarrow> [] | Some ts \<Rightarrow> ts),
                story_type = or_str (new_type b) ''leia'',
                story_price = bind_real (real_affinity c) (or_null_scalar (new_price b)),
                story_likes = 0, story_createdAt = t\<rparr>"
  from assms have ok: "\<not> (\<not> truthy_str (new_title b) \<or> \<not> truthy_str (new_body b))"
    by (auto simp: create_story_def split: if_splits)
  from assms ok have fresh: "newid \<notin> set (map story_id (stories d))"
    by (auto simp: create_story_def insert_story_def Let_def split: if_splits)
  then have nf: "find (\<lambda>s. story_id s = newid) (stories d) = None"
    by (auto simp: find_None_iff)
  have found: "find (\<lambda>s. story_id s = newid) (stories d @ [?row]) = Some ?row"
    by (rule find_append_new[OF nf]) simp
  from assms ok fresh found
  have "d' = d\<lparr>stories := stories d @ [?row]\<rparr>" and "body = JsonStory (Some ?row)"
    by (auto simp: create_story_def insert_story_def Let_def story_by_id_def)
  moreover have "story_price ?row =
               (case new_price b of
                  JsAbsent \<Rightarrow> SqlNull
                | JsNumber n \<Rightarrow> if n = 0 then SqlNull else SqlReal n
                | JsString s \<Rightarrow>
                    if s = [] then SqlNull
                    else (case real_affinity c s of
                            Some n \<Rightarrow> SqlReal n
                          | None \<Rightarrow> SqlText s))"
    by (simp add: bind_real_def or_null_scalar_def truthy_scalar_def split: js_scalar.splits)
  ultimately show ?thesis using found
    by (intro exI[of _ ?row]) (simp add: story_by_id_def)
qed

text \<open>The definitions that evaluate a create on a concrete store.\<close>

lemmas create_eval = create_story_def insert_story_def truthy_str_def or_str_def
  or_null_scalar_def truthy_scalar_def bind_real_def story_by_id_def

theorem create_story_price_witness:
  "create_story demo_codec pub_u1
     \<lparr>new_title = Some ''T4'', new_excerpt = None, new_body = Some ''B4'', new_tags = None,
      new_type = Some ''venda'', new_price = JsNumber 0\<rparr> ''s4'' 7 demo_db
   = (Reply 200 (JsonStory (Some
        \<lparr>story_id = ''s4'', story_authorId = ''u1'', story_title = ''T4'', story_excerpt = [],
         story_body = ''B4'', story_tags = [], story_type = ''venda'', story_price = SqlNull,
         story_likes = 0, story_createdAt = 7\<rparr>)),
      demo_db\<lparr>stories := demo_stories @
        [\<lparr>story_id = ''s4'', story_authorId = ''u1'', story_title = ''T4'', story_excerpt = [],
          story_body = ''B4'', story_tags = [], story_type = ''venda'', story_price = SqlNull,
          story_likes = 0, story_createdAt = 7\<rparr>]\<rparr>)"
proof -
  let ?b = "\<lparr>new_title = Some ''T4'', new_excerpt = None, new_body = Some ''B4'',
      new_tags = None, new_type = Some ''venda'', new_price = JsNumber 0\<rparr>"
  let ?row = "\<lparr>story_id = ''s4'', story_authorId = ''u1'', story_title = ''T4'',
         story_excerpt = [], story_body = ''B4'', story_tags = [], story_type = ''venda'',
         story_price = SqlNull, story_likes = 0, story_createdAt = 7\<rparr>"
  have ev: "create_story demo_codec pub_u1 ?b ''s4'' 7 demo_db
      = (Reply 200 (JsonStory (Some ?row)), demo_db\<lparr>stories := demo_stories @ [?row]\<rparr>)"
    by (simp add: create_eval demo_defs)
  from create_story_price[OF ev]
  obtain row where "stories (demo_db\<lparr>stories := demo_stories @ [?row]\<rparr>)
       = stories demo_db @ [row]"
    and "story_price row = SqlNull"
    by auto
  then have "story_price ?row = SqlNull" by simp
  with ev show ?thesis by simp
qed

text \<open>
  C1 as stated fails: a story of type \<open>'leia'\<close> sent with price 10 is stored with
  price 10.
\<close>

theorem create_story_price_counterexample:
  "create_story demo_codec pub_u1 priced_reading_body ''s3'' 6 demo_db
     = (Reply 200 (JsonStory (Some priced_reading_row)),
        demo_db\<lparr>stories := demo_stories @ [priced_reading_row]\<rparr>)
   \<and> story_type priced_reading_row \<noteq> ''venda''
   \<and> story_price priced_reading_row \<noteq> SqlNull"
  by (simp add: create_eval priced_reading_body_def priced_reading_row_def demo_defs)

subsection \<open>Messages and rooms\<close>

text \<open>
  C2 at a message without \<open>senderId\<close>: the row holds \<open>'anon'\<close> (the INSERT binds
  \<open>senderId||'anon'\<close>), the event emitted to the room carries \<open>senderId\<close> as it came.
\<close>

theorem on_message_sender_differs:
  "on_message
      (Some \<lparr>in_conversationId = Some ''public'', in_senderId = None, in_content = ''oi''\<rparr>)
      ''m1'' 9 public_room demo_db
   = (Inr ({''k1''},
        \<lparr>out_id = ''m1'', out_conversationId = ''public'', out_senderId = None,
         out_content = ''oi'', out_createdAt = 9\<rparr>),
      demo_db\<lparr>messages :=
        [\<lparr>msg_id = ''m1'', msg_conversationId = ''public'', msg_senderId = ''anon'',
          msg_content = ''oi'', msg_createdAt = 9\<rparr>]\<rparr>)"
  by (simp add: on_message_def insert_message_def truthy_str_def or_str_def public_room_def
      Let_def demo_defs)

text \<open>
  The INSERT comes before the emit. When it fails nothing is emitted and the store is
  unchanged; when it succeeds one row is appended and the event goes to the sockets of the
  row's room, with the row's id, room, content and timestamp. The sender of the event is
  the row's when the request names one; otherwise the row holds \<open>'anon'\<close> and the event
  the field as sent.
\<close>

theorem on_message_persists_then_emits:
  "(newid \<in> set (map msg_id (messages d)) \<longrightarrow>
      (\<exists>e. on_message (Some p) newid t rs d = (Inl (StoreError e), d)))
   \<and> (newid \<notin> set (map msg_id (messages d)) \<longrightarrow>
      (\<exists>row ev. on_message (Some p) newid t rs d
           = (Inr (rs (msg_conversationId row), ev), d\<lparr>messages := messages d @ [row]\<rparr>)
         \<and> out_id ev = msg_id row \<and> out_conversationId ev = msg_conversationId row
         \<and> out_content ev = msg_content row \<and> out_createdAt ev = msg_createdAt row
         \<and> (if truthy_str (in_senderId p) then out_senderId ev = Some (msg_senderId row)
            else msg_senderId row = ''anon'' \<and> out_senderId ev = in_senderId p)))"
proof (intro conjI impI)
  assume "newid \<in> set (map msg_id (messages d))"
  then show "\<exists>e. on_message (Some p) newid t rs d = (Inl (StoreError e), d)"
    by (simp add: on_message_def insert_message_def Let_def)
next
  assume fresh: "newid \<notin> set (map msg_id (messages d))"
  let ?room = "if \<not> truthy_str (in_conversationId p) then ''public''
               else the (in_conversationId p)"
  let ?row = "\<lparr>msg_id = newid, msg_conversationId = ?room,
                msg_senderId = or_str (in_senderId p) ''anon'',
                msg_content = in_content p, msg_createdAt = t\<rparr>"
  let ?ev = "\<lparr>out_id = newid, out_conversationId = ?room, out_senderId = in_senderId p,
               out_content = in_content p, out_createdAt = t\<rparr>"
  from fresh have eq: "on_message (Some p) newid t rs d
      = (Inr (rs (msg_conversationId ?row), ?ev), d\<lparr>messages := messages d @ [?row]\<rparr>)"
    by (simp add: on_message_def insert_message_def Let_def)
  have snd: "if truthy_str (in_senderId p) then out_senderId ?ev = Some (msg_senderId ?row)
            else msg_senderId ?row = ''anon'' \<and> out_senderId ?ev = in_senderId p"
    by (auto simp: truthy_str_def or_str_def split: option.splits)
  show "\<exists>row ev. on_message (Some p) newid t rs d
           = (Inr (rs (msg_conversationId row), ev), d\<lparr>messages := messages d @ [row]\<rparr>)
         \<and> out_id ev = msg_id row \<and> out_conversationId ev = msg_conversationId row
         \<and> out_content ev = msg_content row \<and> out_createdAt ev = msg_createdAt row
         \<and> (if truthy_str (in_senderId p) then out_senderId ev = Some (msg_senderId row)
            else msg_senderId row = ''anon'' \<and> out_senderId ev = in_senderId p)"
    apply (rule exI[of _ ?row])
    apply (rule exI[of _ ?ev])
    using eq snd apply simp
    done
qed

theorem on_message_persists_then_emits_witness:
  "on_message (Some \<lparr>in_conversationId = Some ''public'', in_senderId = Some ''user'',
       in_content = ''oi''\<rparr>) ''m1'' 9 public_room demo_db
     = (Inr ({''k1''},
          \<lparr>out_id = ''m1'', out_conversationId = ''public'', out_senderId = Some ''user'',
           out_content = ''oi'', out_createdAt = 9\<rparr>),
        demo_db\<lparr>messages :=
          [\<lparr>msg_id = ''m1'', msg_conversationId = ''public'', msg_senderId = ''user'',
            msg_content = ''oi'', msg_createdAt = 9\<rparr>]\<rparr>)
   \<and> (\<exists>e. on_message (Some \<lparr>in_conversationId = Some ''public'',
          in_senderId = Some ''user'', in_content = ''again''\<rparr>) ''m1'' 10 public_room
          (demo_db\<lparr>messages :=
             [\<lparr>msg_id = ''m1'', msg_conversationId = ''public'', msg_senderId = ''user'',
               msg_content = ''oi'', msg_createdAt = 9\<rparr>]\<rparr>)
        = (Inl (StoreError e), demo_db\<lparr>messages :=
             [\<lparr>msg_id = ''m1'', msg_conversationId = ''public'', msg_senderId = ''user'',
               msg_content = ''oi'', msg_createdAt = 9\<rparr>]\<rparr>))"
proof -
  let ?row = "\<lparr>msg_id = ''m1'', msg_conversationId = ''public'', msg_senderId = ''user'',
               msg_content = ''oi'', msg_createdAt = 9\<rparr>"
  let ?d1 = "demo_db\<lparr>messages := [?row]\<rparr>"
  have taken: "''m1'' \<in> set (map msg_id (messages ?d1))" by simp
  from on_message_persists_then_emits[of "''m1''" ?d1
      "\<lparr>in_conversationId = Some ''public'', in_senderId = Some ''user'',
        in_content = ''again''\<rparr>" 10 public_room] taken
  have 2: "\<exists>e. on_message (Some \<lparr>in_conversationId = Some ''public'',
          in_senderId = Some ''user'', in_content = ''again''\<rparr>) ''m1'' 10 public_room ?d1
        = (Inl (StoreError e), ?d1)"
    by blast
  have 1: "on_message (Some \<lparr>in_conversationId = Some ''public'', in_senderId = Some ''user'',
       in_content = ''oi''\<rparr>) ''m1'' 9 public_room demo_db
     = (Inr ({''k1''},
          \<lparr>out_id = ''m1'', out_conversationId = ''public'', out_senderId = Some ''user'',
           out_content = ''oi'', out_createdAt = 9\<rparr>), ?d1)"
    by (simp add: on_message_def insert_message_def truthy_str_def or_str_def public_room_def
        Let_def demo_defs)
  from 1 2 show ?thesis by blast
qed

text \<open>
  C10 at an event sent with no payload, whose room identity is therefore missing: the
  listener's parameter \<open>({conversationId})\<close> cannot be destructured, the TypeError leaves the
  listener before \<open>if(!conversationId) conversationId = 'public'\<close>, no socket joins
  \<open>'public'\<close> and no message is stored or emitted.
\<close>

theorem listeners_throw_without_payload:
  "on_join ''k2'' None public_room = Inl TypeError
   \<and> on_message None ''m1'' 9 public_room demo_db = (Inl TypeError, demo_db)"
  by (simp add: on_join_def on_message_def)

text \<open>
  An event that carries a payload object whose \<open>conversationId\<close> is missing or empty goes
  to the room \<open>'public'\<close>: the join adds the socket to \<open>'public'\<close>; the message behaves as
  one sent to \<open>'public'\<close>, and when its id is fresh it is stored under \<open>'public'\<close> and
  emitted to the sockets of \<open>'public'\<close>.
\<close>

theorem default_room_public:
  assumes "\<not> truthy_str cid"
  shows "on_join sock (Some \<lparr>join_conversationId = cid\<rparr>) rs
           = Inr (rs(''public'' := insert sock (rs ''public'')))
       \<and> on_message (Some \<lparr>in_conversationId = cid, in_senderId = sender,
            in_content = content\<rparr>) newid t rs d
         = on_message (Some \<lparr>in_conversationId = Some ''public'', in_senderId = sender,
              in_content = content\<rparr>) newid t rs d
       \<and> (newid \<notin> set (map msg_id (messages d)) \<longrightarrow>
            on_message (Some \<lparr>in_conversationId = cid, in_senderId = sender,
               in_content = content\<rparr>) newid t rs d
              = (Inr (rs ''public'',
                   \<lparr>out_id = newid, out_conversationId = ''public'', out_senderId = sender,
                    out_content = content, out_createdAt = t\<rparr>),
                 d\<lparr>messages := messages d @
                    [\<lparr>msg_id = newid, msg_conversationId = ''public'',
                      msg_senderId = or_str sender ''anon'', msg_content = content,
                      msg_createdAt = t\<rparr>]\<rparr>))"
  using assms
  by (simp add: on_join_def on_message_def insert_message_def truthy_str_def Let_def)

theorem default_room_public_witness:
  "on_join ''k2'' (Some \<lparr>join_conversationId = None\<rparr>) public_room
     = Inr (public_room(''public'' := {''k2'', ''k1''}))
   \<and> on_join ''k2'' (Some \<lparr>join_conversationId = Some []\<rparr>) public_room
     = Inr (public_room(''public'' := {''k2'', ''k1''}))
   \<and> on_message (Some \<lparr>in_conversationId = None, in_senderId = Some ''user'',
        in_content = ''oi''\<rparr>) ''m1'' 9 public_room demo_db
      = (Inr ({''k1''},
           \<lparr>out_id = ''m1'', out_conversationId = ''public'', out_senderId = Some ''user'',
            out_content = ''oi'', out_createdAt = 9\<rparr>),
         demo_db\<lparr>messages :=
           [\<lparr>msg_id = ''m1'', msg_conversationId = ''public'', msg_senderId = ''user'',
             msg_content = ''oi'', msg_createdAt = 9\<rparr>]\<rparr>)"
proof -
  have h1: "\<not> truthy_str None" and h2: "\<not> truthy_str (Some [])"
    by (simp_all add: truthy_str_def)
  have fresh: "''m1'' \<notin> set (map msg_id (messages demo_db))" by (simp add: demo_defs)
  have pub: "public_room ''public'' = {''k1''}" by (simp add: public_room_def)
  have msgs: "messages demo_db = []" by (simp add: demo_defs)
  note A = default_room_public[OF h1, of "''k2''" public_room "Some ''user''" "''oi''" "''m1''" 9
      demo_db]
  note B = default_room_public[OF h2, of "''k2''" public_room]
  from A have a: "on_join ''k2'' (Some \<lparr>join_conversationId = None\<rparr>) public_room
     = Inr (public_room(''public'' := {''k2'', ''k1''}))"
    by (simp add: pub)
  from B have b: "on_join ''k2'' (Some \<lparr>join_conversationId = Some []\<rparr>) public_room
     = Inr (public_room(''public'' := {''k2'', ''k1''}))"
    by (simp add: pub)
  note A3 = A[THEN conjunct2, THEN conjunct2, THEN mp, OF fresh]
  from A3 have c:
    "on_message (Some \<lparr>in_conversationId = None, in_senderId = Some ''user'',
        in_content = ''oi''\<rparr>) ''m1'' 9 public_room demo_db
      = (Inr ({''k1''},
           \<lparr>out_id = ''m1'', out_conversationId = ''public'', out_senderId = Some ''user'',
            out_content = ''oi'', out_createdAt = 9\<rparr>),
         demo_db\<lparr>messages :=
           [\<lparr>msg_id = ''m1'', msg_conversationId = ''public'', msg_senderId = ''user'',
             msg_content = ''oi'', msg_createdAt = 9\<rparr>]\<rparr>)"
    by (simp add: pub msgs or_str_def)
  from a b c show ?thesis by blast
qed

subsection \<open>Toggling a favorite twice\<close>

text \<open>
  C6. In a store the server reaches, with the identities \<open>uid()\<close> returns not yet used in
  \<open>favorites\<close>, two toggles in a row of the same user and story bring the favorites
  relation to where it was. When the pair was absent the first answers \<open>added\<close>, the
  second \<open>removed\<close>, and the store is the one before; when it was present the first
  answers \<open>removed\<close>, the second \<open>added\<close>, and the pair is back (in a row with a new
  id and timestamp). No other table changes.
\<close>

theorem toggle_favorite_twice:
  assumes "reachable c d"
    and "id1 \<notin> set (map fav_id (favorites d))" and "id2 \<notin> set (map fav_id (favorites d))"
  shows "\<exists>d1 d2.
     (if (pub_id user, i) \<in> fav_rel d
      then toggle_favorite user i id1 t1 d = (Reply 200 (JsonAction ''removed''), d1)
         \<and> toggle_favorite user i id2 t2 d1 = (Reply 200 (JsonAction ''added''), d2)
         \<and> (pub_id user, i) \<notin> fav_rel d1
      else toggle_favorite user i id1 t1 d = (Reply 200 (JsonAction ''added''), d1)
         \<and> toggle_favorite user i id2 t2 d1 = (Reply 200 (JsonAction ''removed''), d2)
         \<and> (pub_id user, i) \<in> fav_rel d1 \<and> d2 = d)
     \<and> fav_rel d2 = fav_rel d
     \<and> users d2 = users d \<and> stories d2 = stories d \<and> messages d2 = messages d
     \<and> announcements d2 = announcements d"
proof (cases "(pub_id user, i) \<in> fav_rel d")
  case False
  let ?row = "\<lparr>fav_id = id1, fav_userId = pub_id user, fav_storyId = i, fav_createdAt = t1\<rparr>"
  let ?d1 = "d\<lparr>favorites := favorites d @ [?row]\<rparr>"
  have 1: "toggle_favorite user i id1 t1 d = (Reply 200 (JsonAction ''added''), ?d1)"
    by (rule toggle_favorite_absent[OF False assms(2)])
  from False
  have "find (\<lambda>f. fav_userId f = pub_id user \<and> fav_storyId f = i) (favorites d) = None"
    by (force simp: fav_rel_def find_None_iff)
  then have "favorite_of (pub_id user) i ?d1 = Some ?row"
    by (simp add: favorite_of_def find_append_new)
  with assms(2)
  have 2: "toggle_favorite user i id2 t2 ?d1 = (Reply 200 (JsonAction ''removed''), d)"
    by (simp add: toggle_favorite_def filter_fresh)
  have "(pub_id user, i) \<in> fav_rel ?d1" by (simp add: fav_rel_def)
  with False 1 2 show ?thesis by auto
next
  case True
  from assms(1) have inv: "fav_inv d" by (rule reachable_inv)
  from toggle_favorite_present[OF True, of id1 t1]
  obtain e where e: "e \<in> set (favorites d)" "fav_userId e = pub_id user" "fav_storyId e = i"
    and 1: "toggle_favorite user i id1 t1 d =
               (Reply 200 (JsonAction ''removed''),
                d\<lparr>favorites := filter (\<lambda>f. fav_id f \<noteq> fav_id e) (favorites d)\<rparr>)"
    by blast
  let ?d1 = "d\<lparr>favorites := filter (\<lambda>f. fav_id f \<noteq> fav_id e) (favorites d)\<rparr>"
  let ?row = "\<lparr>fav_id = id2, fav_userId = pub_id user, fav_storyId = i, fav_createdAt = t2\<rparr>"
  let ?d2 = "?d1\<lparr>favorites := favorites ?d1 @ [?row]\<rparr>"
  have rel1: "fav_rel ?d1 = fav_rel d - {(pub_id user, i)}"
    using fav_rel_removed[OF inv e(1)] e by simp
  then have out: "(pub_id user, i) \<notin> fav_rel ?d1" by simp
  from assms(3) have fresh: "id2 \<notin> set (map fav_id (favorites ?d1))" by auto
  have 2: "toggle_favorite user i id2 t2 ?d1 = (Reply 200 (JsonAction ''added''), ?d2)"
    by (rule toggle_favorite_absent[OF out fresh])
  have "fav_rel ?d2 = insert (pub_id user, i) (fav_rel ?d1)"
    by (simp add: fav_rel_def)
  with rel1 True have restored: "fav_rel ?d2 = fav_rel d" by auto
  have frame: "users ?d2 = users d \<and> stories ?d2 = stories d \<and> messages ?d2 = messages d
     \<and> announcements ?d2 = announcements d" by simp
  show ?thesis
    apply (rule exI[of _ ?d1])
    apply (rule exI[of _ ?d2])
    using True 1 2 out restored frame apply simp
    done
qed

text \<open>The definitions that evaluate a toggle on a concrete store.\<close>

lemmas toggle_eval = toggle_favorite_def favorite_of_def insert_favorite_def

theorem toggle_favorite_twice_witness:
  "toggle_favorite pub_u2 ''s1'' ''f1'' 5 demo_db = (Reply 200 (JsonAction ''added''), fav_db)
   \<and> toggle_favorite pub_u2 ''s1'' ''f2'' 6 fav_db = (Reply 200 (JsonAction ''removed''), demo_db)
   \<and> toggle_favorite pub_u2 ''s1'' ''f3'' 7 demo_db
       = (Reply 200 (JsonAction ''added''),
          demo_db\<lparr>favorites :=
            [\<lparr>fav_id = ''f3'', fav_userId = ''u2'', fav_storyId = ''s1'', fav_createdAt = 7\<rparr>]\<rparr>)
   \<and> fav_rel (demo_db\<lparr>favorites :=
            [\<lparr>fav_id = ''f3'', fav_userId = ''u2'', fav_storyId = ''s1'', fav_createdAt = 7\<rparr>]\<rparr>)
       = fav_rel fav_db"
proof -
  have f1: "''f1'' \<notin> set (map fav_id (favorites demo_db))"
    and f2: "''f2'' \<notin> set (map fav_id (favorites demo_db))"
    by (simp_all add: demo_defs)
  have g2: "''f2'' \<notin> set (map fav_id (favorites fav_db))"
    and g3: "''f3'' \<notin> set (map fav_id (favorites fav_db))"
    by (simp_all add: fav_db_def demo_defs)
  have out: "(pub_id pub_u2, ''s1'') \<notin> fav_rel demo_db"
    by (simp add: fav_rel_def demo_defs)
  have inn: "(pub_id pub_u2, ''s1'') \<in> fav_rel fav_db"
    by (simp add: fav_rel_def fav_db_def demo_defs)
  have e1: "toggle_favorite pub_u2 ''s1'' ''f1'' 5 demo_db
      = (Reply 200 (JsonAction ''added''), fav_db)"
    by (simp add: toggle_eval fav_db_def demo_defs)
  have e2: "toggle_favorite pub_u2 ''s1'' ''f2'' 6 fav_db
      = (Reply 200 (JsonAction ''removed''), demo_db)"
    by (simp add: toggle_eval fav_db_def demo_defs)
  have e3: "toggle_favorite pub_u2 ''s1'' ''f3'' 7 demo_db
       = (Reply 200 (JsonAction ''added''),
          demo_db\<lparr>favorites :=
            [\<lparr>fav_id = ''f3'', fav_userId = ''u2'', fav_storyId = ''s1'', fav_createdAt = 7\<rparr>]\<rparr>)"
    by (simp add: toggle_eval demo_defs)
  from toggle_favorite_twice[OF fav_db_reachable g2 g3, of pub_u2 "''s1''" 6 7] inn
  obtain d1 d2 where a: "toggle_favorite pub_u2 ''s1'' ''f2'' 6 fav_db
        = (Reply 200 (JsonAction ''removed''), d1)"
    and b: "toggle_favorite pub_u2 ''s1'' ''f3'' 7 d1 = (Reply 200 (JsonAction ''added''), d2)"
    and c: "fav_rel d2 = fav_rel fav_db"
    by auto
  from a e2 have "d1 = demo_db" by simp
  with b e3 have "d2 = demo_db\<lparr>favorites :=
            [\<lparr>fav_id = ''f3'', fav_userId = ''u2'', fav_storyId = ''s1'', fav_createdAt = 7\<rparr>]\<rparr>"
    by simp
  with c e1 e2 e3 show ?thesis by simp
qed

subsection \<open>Checkout\<close>

text \<open>
  C8, as the code has it. In any store, checkout answers 404 when no story has the id,
  400 \<open>not for sale\<close> when the story's stored price is NULL, the number 0 or the empty
  text (the values \<open>!story.price\<close> holds for), and otherwise 200 with a link whose amount
  is the stored price; the store is unchanged in every case.
\<close>

theorem checkout_outcomes:
  "snd (checkout user i newid d) = d
   \<and> fst (checkout user i newid d) =
       (case story_by_id i d of
          None \<Rightarrow> Reply 404 (JsonError ''story not found'')
        | Some s \<Rightarrow>
            if story_price s = SqlNull \<or> story_price s = SqlReal 0 \<or> story_price s = SqlText []
            then Reply 400 (JsonError ''not for sale'')
            else Reply 200 (JsonCheckout
                   \<lparr>link_url = ''https://pagamento-simulado.local/checkout/'' @ newid,
                    link_amount = story_price s, link_storyId = i\<rparr>))"
proof (cases "story_by_id i d")
  case None
  then show ?thesis by (simp add: checkout_def)
next
  case (Some s)
  have "truthy_sql (story_price s) \<longleftrightarrow>
      \<not> (story_price s = SqlNull \<or> story_price s = SqlReal 0 \<or> story_price s = SqlText [])"
    by (cases "story_price s") (simp_all add: truthy_sql_def)
  with Some show ?thesis by (simp add: checkout_def)
qed

theorem checkout_outcomes_witness:
  "checkout pub_u2 ''s2'' ''k'' demo_db
     = (Reply 200 (JsonCheckout
          \<lparr>link_url = ''https://pagamento-simulado.local/checkout/k'',
           link_amount = SqlReal 5, link_storyId = ''s2''\<rparr>), demo_db)
   \<and> checkout pub_u2 ''s1'' ''k'' demo_db = (Reply 400 (JsonError ''not for sale''), demo_db)
   \<and> checkout pub_u2 ''s0'' ''k'' demo_db = (Reply 404 (JsonError ''story not found''), demo_db)"
proof -
  note A = checkout_outcomes[of pub_u2 _ "''k''" demo_db]
  from A[of "''s2''"] A[of "''s1''"] A[of "''s0''"] show ?thesis
    by (simp add: story_by_id_def demo_defs prod_eq_iff)
qed

text \<open>
  C8 as stated fails: a story created with the price \<open>'0'\<close> (a string, so truthy in
  \<open>price||null\<close>) is stored with price 0.0, a price that is set, and checkout answers
  \<open>not for sale\<close> for it.
\<close>

theorem checkout_outcomes_counterexample:
  "create_story demo_codec pub_u1 zero_price_body ''s5'' 8 demo_db
     = (Reply 200 (JsonStory (Some zero_price_row)), zero_price_db)
   \<and> story_by_id ''s5'' zero_price_db = Some zero_price_row
   \<and> story_price zero_price_row \<noteq> SqlNull
   \<and> checkout pub_u2 ''s5'' ''k'' zero_price_db
       = (Reply 400 (JsonError ''not for sale''), zero_price_db)"
  by (simp add: create_eval checkout_def truthy_sql_def zero_price_body_def zero_price_row_def
      zero_price_db_def demo_defs)

subsection \<open>Admins\<close>

text \<open>
  C9. No request other than \<open>/setup-admin\<close> changes the rows with role \<open>'admin'\<close>;
  \<open>/setup-admin\<close> answers \<open>admin exists\<close> and writes nothing when there is one; and
  a registration adds no row or one row with role \<open>'user'\<close>.
\<close>

theorem admin_rows_only_from_setup:
  "(r \<noteq> SetupAdmin \<longrightarrow> admins (handle c rs newid t r d) = admins d)
   \<and> (admins d \<noteq> [] \<longrightarrow>
        setup_admin c newid t d =
          (Reply 200 (PlainText
             ''admin exists. delete data.db to recreate or remove this route''), d))
   \<and> (users (snd (register c b newid t d)) = users d
      \<or> (\<exists>row. users (snd (register c b newid t d)) = users d @ [row]
            \<and> user_role row = ''user''))"
proof (intro conjI impI)
  assume "r \<noteq> SetupAdmin"
  show "admins (handle c rs newid t r d) = admins d"
  proof (cases "\<exists>b. r = Register b")
    case True
    then show ?thesis by (auto simp: admins_register)
  next
    case False
    with \<open>r \<noteq> SetupAdmin\<close> have "users (handle c rs newid t r d) = users d"
      by (intro users_handle_other) auto
    then show ?thesis by (simp add: admins_def)
  qed
next
  assume "admins d \<noteq> []"
  then obtain a where "find (\<lambda>u. user_role u = ''admin'') (users d) = Some a"
    by (cases "find (\<lambda>u. user_role u = ''admin'') (users d)")
       (auto simp: admins_def find_None_iff filter_empty_conv)
  then show "setup_admin c newid t d =
          (Reply 200 (PlainText
             ''admin exists. delete data.db to recreate or remove this route''), d)"
    by (simp add: setup_admin_def)
next
  show "users (snd (register c b newid t d)) = users d
      \<or> (\<exists>row. users (snd (register c b newid t d)) = users d @ [row]
            \<and> user_role row = ''user'')"
    by (rule users_register)
qed

theorem admin_rows_only_from_setup_witness:
  "admins (handle demo_codec no_rooms ''u3'' 7
      (Register \<lparr>reg_email = Some ''c@x'', reg_password = Some ''p3'', reg_name = Some ''admin'',
         reg_username = Some ''root''\<rparr>) admin_db) = admins admin_db
   \<and> length (admins admin_db) = 1
   \<and> setup_admin demo_codec ''u3'' 7 admin_db =
        (Reply 200 (PlainText
           ''admin exists. delete data.db to recreate or remove this route''), admin_db)"
proof -
  let ?r = "Register \<lparr>reg_email = Some ''c@x'', reg_password = Some ''p3'',
      reg_name = Some ''admin'', reg_username = Some ''root''\<rparr>"
  have ne: "?r \<noteq> SetupAdmin" by simp
  have one: "length (admins admin_db) = 1" by (simp add: admins_def admin_db_def demo_defs)
  then have ex: "admins admin_db \<noteq> []" by auto
  note A = admin_rows_only_from_setup[of ?r demo_codec no_rooms "''u3''" 7 admin_db]
  from A ne ex one show ?thesis by blast
qed

end
